theory Spec2Isabelle
  imports Complex_Main "HOL-Library.Sublist"
begin

section \<open>JavaScript values used by the demo\<close>

text \<open>
  Numbers are modelled as reals: the retargeting arithmetic is one multiplication and one
  \<open>Math.min\<close>. Strings are character lists.
\<close>

datatype error = TypeError

text \<open>
  \<open>String.prototype.includes\<close>: does \<open>sub\<close> occur in the string as a contiguous
  run? (The bare name \<open>includes\<close> is a keyword of Isabelle, hence the prefix.)
\<close>

fun str_includes :: "string \<Rightarrow> string \<Rightarrow> bool" where
  "str_includes [] sub = (sub = [])"
| "str_includes (c # cs) sub = (prefix sub (c # cs) \<or> str_includes cs sub)"

text \<open>
  A JavaScript \<open>Map\<close> from names to numbers, as the list of its entries in insertion
  order. \<open>Map_set\<close> overwrites the value of a key that is present (the entry keeps its
  place) and appends a new entry otherwise; \<open>Map_get\<close> reads a key.
\<close>

type_synonym coefs = "(string \<times> real) list"

fun Map_set :: "string \<Rightarrow> real \<Rightarrow> coefs \<Rightarrow> coefs" where
  "Map_set k v [] = [(k, v)]"
| "Map_set k v ((k', v') # rest) =
     (if k' = k then (k, v) # rest else (k', v') # Map_set k v rest)"

definition Map_get :: "coefs \<Rightarrow> string \<Rightarrow> real option" where
  "Map_get m k = map_of m k"

text \<open>
  A JavaScript array of numbers that may have holes (\<open>None\<close> reads as \<open>undefined\<close>).
  Writing at or beyond the length extends the array, leaving holes in between; reading
  beyond the length gives \<open>undefined\<close>.
\<close>

type_synonym js_array = "real option list"

definition array_set :: "js_array \<Rightarrow> nat \<Rightarrow> real \<Rightarrow> js_array" where
  "array_set xs i v =
     (if i < length xs then xs[i := Some v]
      else xs @ replicate (i - length xs) None @ [Some v])"

definition array_get :: "js_array \<Rightarrow> nat \<Rightarrow> real option" where
  "array_get xs i = (if i < length xs then xs ! i else None)"

section \<open>Detector output\<close>

record Category =
  categoryName :: string
  score :: real

record Classifications =
  categories :: "Category list"

record Matrix =
  data :: "real list"

record FaceLandmarkerResult =
  facialTransformationMatrixes :: "Matrix list option"
  faceBlendshapes :: "Classifications list option"

section \<open>Retargeting (main.js, \<open>BLENDSHAPE_GAIN\<close> and \<open>retarget\<close>)\<close>

record GainTable =
  mouth :: real
  jaw :: real
  tongue :: real
  eye :: real
  brow :: real
  default_gain :: real

definition BLENDSHAPE_GAIN :: GainTable where
  "BLENDSHAPE_GAIN =
     \<lparr>mouth = 22 / 10, jaw = 22 / 10, tongue = 25 / 10, eye = 12 / 10, brow = 12 / 10,
      default_gain = 1\<rparr>"

text \<open>The \<open>if\<close>/\<open>else if\<close> chain of the loop body that picks the gain of a name.\<close>

definition select_gain :: "string \<Rightarrow> real" where
  "select_gain name =
     (if str_includes name ''mouth'' \<or> str_includes name ''Mouth'' then mouth BLENDSHAPE_GAIN
      else if str_includes name ''jaw'' \<or> str_includes name ''Jaw'' then jaw BLENDSHAPE_GAIN
      else if str_includes name ''tongue'' \<or> str_includes name ''Tongue'' then tongue BLENDSHAPE_GAIN
      else if str_includes name ''eye'' \<or> str_includes name ''Eye'' then eye BLENDSHAPE_GAIN
      else if str_includes name ''brow'' \<or> str_includes name ''Brow'' then brow BLENDSHAPE_GAIN
      else default_gain BLENDSHAPE_GAIN)"

text \<open>
  The \<open>for\<close> loop over \<open>categories\<close>. The loop is threaded through the array as well
  as through \<open>coefsMap\<close>, so that the state of the caller's array after the call is part
  of the result; this body only reads the entry.
\<close>

fun retarget_loop :: "Category list \<Rightarrow> coefs \<Rightarrow> Category list \<times> coefs" where
  "retarget_loop [] coefsMap = ([], coefsMap)"
| "retarget_loop (blendshape # rest) coefsMap =
     (let name = categoryName blendshape;
          gain = select_gain name;
          score' = min 1 (score blendshape * gain);
          (rest', coefsMap') = retarget_loop rest (Map_set name score' coefsMap)
      in (blendshape # rest', coefsMap'))"

text \<open>
  \<open>retarget(blendshapes)\<close> reads \<open>blendshapes[0].categories\<close>, which throws a
  \<open>TypeError\<close> on an empty array. The result is the caller's array as it stands after
  the call, paired with the returned \<open>Map\<close>.
\<close>

definition retarget :: "Classifications list \<Rightarrow> error + (Classifications list \<times> coefs)" where
  "retarget blendshapes =
     (case blendshapes of
        [] \<Rightarrow> Inl TypeError
      | face # others \<Rightarrow>
          (let (categories', coefsMap) = retarget_loop (categories face) []
           in Inr (face\<lparr>categories := categories'\<rparr> # others, coefsMap)))"

section \<open>Retargeting in the second listing of main.js (three.js loaded from a CDN)\<close>

text \<open>The four \<open>case\<close> labels of the \<open>switch\<close>.\<close>

definition boosted :: "string \<Rightarrow> bool" where
  "boosted name =
     (name = ''browOuterUpLeft'' \<or> name = ''browOuterUpRight''
      \<or> name = ''eyeBlinkLeft'' \<or> name = ''eyeBlinkRight'')"

text \<open>
  This loop body assigns to the entry (\<open>blendshape.score *= 1.2\<close>) and then reads the
  name and the score back from \<open>categories[i]\<close>.
\<close>

fun retarget_alt_loop :: "Category list \<Rightarrow> coefs \<Rightarrow> Category list \<times> coefs" where
  "retarget_alt_loop [] coefsMap = ([], coefsMap)"
| "retarget_alt_loop (blendshape # rest) coefsMap =
     (let blendshape' =
            (if boosted (categoryName blendshape)
             then blendshape\<lparr>score := score blendshape * (12 / 10)\<rparr>
             else blendshape);
          (rest', coefsMap') =
            retarget_alt_loop rest
              (Map_set (categoryName blendshape') (score blendshape') coefsMap)
      in (blendshape' # rest', coefsMap'))"

definition retarget_alt :: "Classifications list \<Rightarrow> error + (Classifications list \<times> coefs)" where
  "retarget_alt blendshapes =
     (case blendshapes of
        [] \<Rightarrow> Inl TypeError
      | face # others \<Rightarrow>
          (let (categories', coefsMap) = retarget_alt_loop (categories face) []
           in Inr (face\<lparr>categories := categories'\<rparr> # others, coefsMap)))"

section \<open>Scene objects (three.js)\<close>

text \<open>
  Modelled from the spec: \<open>THREE.Matrix4\<close> belongs to the three.js library, which is
  not part of this repository. A matrix is the list of its \<open>elements\<close>, sixteen
  numbers in column-major order. \<open>Matrix4.scale(v)\<close> scales the pose uniformly per axis:
  it multiplies the first column by \<open>v.x\<close>, the second by \<open>v.y\<close>, the third by
  \<open>v.z\<close> and leaves the fourth (the translation) alone. \<open>fromArray\<close> reads sixteen
  numbers, \<open>clone\<close> and \<open>copy\<close> transfer the elements.
\<close>

type_synonym Matrix4 = "real list"

definition Matrix4_fromArray :: "real list \<Rightarrow> Matrix4" where
  "Matrix4_fromArray array = take 16 array"

definition Matrix4_scale :: "Matrix4 \<Rightarrow> real \<Rightarrow> real \<Rightarrow> real \<Rightarrow> Matrix4" where
  "Matrix4_scale te x y z =
     map (\<lambda>(i, e). if i < 4 then e * x else if i < 8 then e * y
                    else if i < 12 then e * z else e)
       (enumerate 0 te)"

definition Matrix4_clone :: "Matrix4 \<Rightarrow> Matrix4" where
  "Matrix4_clone m = m"

text \<open>The two fields of a scene node that the demo assigns.\<close>

record Object3D =
  matrixAutoUpdate :: bool
  matrix :: Matrix4

record GLTF =
  scene :: Object3D

text \<open>
  A mesh of the loaded model: \<open>morphTargetDictionary\<close> maps a name to a slot of
  \<open>morphTargetInfluences\<close>; either may be missing (\<open>None\<close>).
\<close>

record Mesh =
  morphTargetDictionary :: "(string \<rightharpoonup> nat) option"
  morphTargetInfluences :: "js_array option"

section \<open>class Avatar\<close>

text \<open>
  The two listings of main.js have the same text for \<open>updateBlendshapes\<close> and
  \<open>applyMatrix\<close>; the definitions below stand for both.
\<close>

record Avatar =
  gltf :: "GLTF option"
  morphTargetMeshes :: "Mesh list"

text \<open>The options object of \<open>applyMatrix\<close>; \<open>scale\<close> may be left out.\<close>

record RetargetOptions =
  scale :: "real option"

text \<open>
  The inner loop of \<open>updateBlendshapes\<close> over the entries of the \<open>Map\<close>, for one
  mesh: a name that is not a key of the dictionary is skipped (\<open>continue\<close>).
\<close>

fun influences_loop :: "(string \<rightharpoonup> nat) \<Rightarrow> coefs \<Rightarrow> js_array \<Rightarrow> js_array" where
  "influences_loop dict [] influences = influences"
| "influences_loop dict ((name, value) # rest) influences =
     (case dict name of
        None \<Rightarrow> influences_loop dict rest influences
      | Some idx \<Rightarrow> influences_loop dict rest (array_set influences idx value))"

text \<open>The body of the outer loop: a mesh lacking either field is skipped.\<close>

definition update_mesh :: "coefs \<Rightarrow> Mesh \<Rightarrow> Mesh" where
  "update_mesh blendshapes mesh =
     (case morphTargetDictionary mesh of
        None \<Rightarrow> mesh
      | Some dict \<Rightarrow>
          (case morphTargetInfluences mesh of
             None \<Rightarrow> mesh
           | Some influences \<Rightarrow>
               mesh\<lparr>morphTargetInfluences :=
                      Some (influences_loop dict blendshapes influences)\<rparr>))"

definition updateBlendshapes :: "Avatar \<Rightarrow> coefs \<Rightarrow> Avatar" where
  "updateBlendshapes this blendshapes =
     this\<lparr>morphTargetMeshes := map (update_mesh blendshapes) (morphTargetMeshes this)\<rparr>"

text \<open>
  \<open>const { scale = 1 } = matrixRetargetOptions\<close>, where the parameter itself
  defaults to \<open>{}\<close>.
\<close>


definition destructure_scale :: "RetargetOptions option \<Rightarrow> real" where
  "destructure_scale matrixRetargetOptions =
     (let options = (case matrixRetargetOptions of
                       None \<Rightarrow> \<lparr>scale = None\<rparr>
                     | Some given \<Rightarrow> given)
      in case scale options of None \<Rightarrow> 1 | Some given \<Rightarrow> given)"

text \<open>
  \<open>Avatar.applyMatrix(matrix, matrixRetargetOptions = {})\<close>. The matrix is an object
  of the caller, so the result pairs its elements after the call with the avatar after
  the call.
\<close>

definition applyMatrix :: "Avatar \<Rightarrow> Matrix4 \<Rightarrow> RetargetOptions option \<Rightarrow> Matrix4 \<times> Avatar" where
  "applyMatrix this m matrixRetargetOptions =
     (let s = destructure_scale matrixRetargetOptions
      in case gltf this of
           None \<Rightarrow> (m, this)
         | Some g \<Rightarrow>
             (let m' = Matrix4_scale m s s s
              in (m', this\<lparr>gltf :=
                           Some (g\<lparr>scene := (scene g)\<lparr>matrixAutoUpdate := False,
                                                     matrix := m'\<rparr>\<rparr>)\<rparr>)))"

section \<open>class FaceOverlay\<close>

record FaceOverlay =
  overlay_mesh :: "Object3D option"
  overlay_scale :: real

text \<open>
  \<open>FaceOverlay.applyMatrix(matrix, opts = {})\<close>: the scale is \<open>opts.scale ?? this.scale\<close>
  and the scaling is done on a clone.
\<close>

definition overlay_applyMatrix ::
  "FaceOverlay \<Rightarrow> Matrix4 \<Rightarrow> RetargetOptions option \<Rightarrow> Matrix4 \<times> FaceOverlay" where
  "overlay_applyMatrix this m opts =
     (case overlay_mesh this of
        None \<Rightarrow> (m, this)
      | Some mesh \<Rightarrow>
          (let options = (case opts of None \<Rightarrow> \<lparr>scale = None\<rparr> | Some given \<Rightarrow> given);
               s = (case scale options of None \<Rightarrow> overlay_scale this | Some given \<Rightarrow> given);
               scaled = Matrix4_scale (Matrix4_clone m) s s s
           in (m, this\<lparr>overlay_mesh :=
                        Some (mesh\<lparr>matrixAutoUpdate := False, matrix := scaled\<rparr>)\<rparr>)))"

section \<open>The per-frame path (\<open>detectFaceLandmarks\<close>)\<close>

text \<open>
  The module-level handles. The detector is an outside collaborator: it is a function
  from the video element and the time stamp to its result.
\<close>

type_synonym HTMLVideoElement = nat

record Globals =
  faceLandmarker :: "(HTMLVideoElement \<Rightarrow> real \<Rightarrow> FaceLandmarkerResult) option"
  video :: "HTMLVideoElement option"
  avatar :: "Avatar option"
  faceOverlay :: "FaceOverlay option"

definition detectFaceLandmarks :: "Globals \<Rightarrow> real \<Rightarrow> error + Globals" where
  "detectFaceLandmarks g time =
     (case faceLandmarker g of
        None \<Rightarrow> Inr g
      | Some detector \<Rightarrow>
     (case video g of
        None \<Rightarrow> Inr g
      | Some v \<Rightarrow>
     (let landmarks = detector v time
      in case facialTransformationMatrixes landmarks of
           None \<Rightarrow> Inr g
         | Some [] \<Rightarrow> Inr g
         | Some (first # _) \<Rightarrow>
     (let m = Matrix4_fromArray (data first);
          (m1, g1) =
            (case faceOverlay g of
               None \<Rightarrow> (m, g)
             | Some overlay \<Rightarrow>
                 (let (m', overlay') =
                        overlay_applyMatrix overlay m (Some \<lparr>scale = Some 40\<rparr>)
                  in (m', g\<lparr>faceOverlay := Some overlay'\<rparr>)))
      in case avatar g1 of
           None \<Rightarrow> Inr g1
         | Some a \<Rightarrow>
     (let (m2, a1) = applyMatrix a m1 (Some \<lparr>scale = Some 40\<rparr>)
      in case faceBlendshapes landmarks of
           None \<Rightarrow> Inr (g1\<lparr>avatar := Some a1\<rparr>)
         | Some [] \<Rightarrow> Inr (g1\<lparr>avatar := Some a1\<rparr>)
         | Some (face # others) \<Rightarrow>
             (case retarget (face # others) of
                Inl e \<Rightarrow> Inl e
              | Inr (_, coefsMap) \<Rightarrow>
                  Inr (g1\<lparr>avatar := Some (updateBlendshapes a1 coefsMap)\<rparr>)))))))"

section \<open>The gain selection in words\<close>

text \<open>
  Two readings of the selection rule, to be compared with \<open>select_gain\<close>. Both walk
  the categories in the order mouth, jaw, tongue, eye, brow and take the first that
  matches. \<open>gain_case_insensitive\<close> follows the specification's words: the name is
  matched without regard to case. \<open>gain_two_spellings\<close> matches with regard to case,
  against the category as written and against the category with a capital first letter.
\<close>

definition category_gains :: "(string \<times> real) list" where
  "category_gains =
     [(''mouth'', mouth BLENDSHAPE_GAIN), (''jaw'', jaw BLENDSHAPE_GAIN),
      (''tongue'', tongue BLENDSHAPE_GAIN), (''eye'', eye BLENDSHAPE_GAIN),
      (''brow'', brow BLENDSHAPE_GAIN)]"

definition lower_char :: "char \<Rightarrow> char" where
  "lower_char c =
     (case map_of (zip ''ABCDEFGHIJKLMNOPQRSTUVWXYZ'' ''abcdefghijklmnopqrstuvwxyz'') c of
        None \<Rightarrow> c
      | Some l \<Rightarrow> l)"

definition upper_char :: "char \<Rightarrow> char" where
  "upper_char c =
     (case map_of (zip ''abcdefghijklmnopqrstuvwxyz'' ''ABCDEFGHIJKLMNOPQRSTUVWXYZ'') c of
        None \<Rightarrow> c
      | Some u \<Rightarrow> u)"

definition toLowerCase :: "string \<Rightarrow> string" where
  "toLowerCase s = map lower_char s"

definition capitalize :: "string \<Rightarrow> string" where
  "capitalize s = (case s of [] \<Rightarrow> [] | c # cs \<Rightarrow> upper_char c # cs)"

definition first_gain :: "(string \<Rightarrow> bool) \<Rightarrow> real" where
  "first_gain matches =
     (case find (\<lambda>(category, gain). matches category) category_gains of
        None \<Rightarrow> default_gain BLENDSHAPE_GAIN
      | Some (category, gain) \<Rightarrow> gain)"

definition gain_case_insensitive :: "string \<Rightarrow> real" where
  "gain_case_insensitive name =
     first_gain (\<lambda>category. str_includes (toLowerCase name) category)"

definition gain_two_spellings :: "string \<Rightarrow> real" where
  "gain_two_spellings name =
     first_gain (\<lambda>category. str_includes name category
                               \<or> str_includes name (capitalize category))"

section \<open>Facts about the Map and the array model\<close>

lemma Map_get_Map_set:
  "Map_get (Map_set k v m) k' = (if k' = k then Some v else Map_get m k')"
  by (induction m) (auto simp: Map_get_def)

lemma array_get_array_set:
  "array_get (array_set xs i v) j = (if j = i then Some v else array_get xs j)"
  by (auto simp: array_get_def array_set_def nth_append nth_Cons')

text \<open>\<open>str_includes\<close> is the contiguous-sublist relation of the list library.\<close>

lemma str_includes_sublist: "str_includes s sub \<longleftrightarrow> sublist sub s"
  by (induction s) (auto simp: sublist_Cons_right)

section \<open>The retargeting loops\<close>

lemma select_gain_ge_1: "1 \<le> select_gain name"
  by (simp add: select_gain_def BLENDSHAPE_GAIN_def)

lemma select_gain_two_spellings: "select_gain name = gain_two_spellings name"
  by (simp add: select_gain_def gain_two_spellings_def first_gain_def category_gains_def
      capitalize_def upper_char_def)

lemma fst_retarget_loop: "fst (retarget_loop cats m) = cats"
  by (induction cats arbitrary: m) (simp_all add: Let_def case_prod_beta)

lemma retarget_loop_absent:
  "n \<notin> categoryName ` set cats \<Longrightarrow> Map_get (snd (retarget_loop cats m)) n = Map_get m n"
  by (induction cats arbitrary: m) (simp_all add: Let_def case_prod_beta Map_get_Map_set)

lemma retarget_loop_last:
  "categoryName b \<notin> categoryName ` set post \<Longrightarrow>
   Map_get (snd (retarget_loop (pre @ b # post) m)) (categoryName b)
     = Some (min 1 (score b * select_gain (categoryName b)))"
proof (induction pre arbitrary: m)
  case Nil
  then show ?case
    using retarget_loop_absent [of "categoryName b" post]
    by (simp add: Let_def case_prod_beta Map_get_Map_set)
next
  case (Cons c pre)
  then show ?case by (simp add: Let_def case_prod_beta)
qed

lemma retarget_Cons:
  "retarget (face # others) =
     Inr (face # others, snd (retarget_loop (categories face) []))"
  by (simp add: retarget_def case_prod_beta fst_retarget_loop)

lemma fst_retarget_alt_loop:
  "fst (retarget_alt_loop cats m) =
     map (\<lambda>b. if boosted (categoryName b) then b\<lparr>score := score b * (12 / 10)\<rparr> else b) cats"
  by (induction cats arbitrary: m) (simp_all add: Let_def case_prod_beta)

lemma retarget_alt_loop_absent:
  "n \<notin> categoryName ` set cats \<Longrightarrow>
   Map_get (snd (retarget_alt_loop cats m)) n = Map_get m n"
  by (induction cats arbitrary: m) (simp_all add: Let_def case_prod_beta Map_get_Map_set)

lemma retarget_alt_loop_last:
  "categoryName b \<notin> categoryName ` set post \<Longrightarrow>
   Map_get (snd (retarget_alt_loop (pre @ b # post) m)) (categoryName b)
     = Some (score b * (if boosted (categoryName b) then 12 / 10 else 1))"
proof (induction pre arbitrary: m)
  case Nil
  then show ?case
    using retarget_alt_loop_absent [of "categoryName b" post]
    by (simp add: Let_def case_prod_beta Map_get_Map_set)
next
  case (Cons c pre)
  then show ?case by (simp add: Let_def case_prod_beta)
qed

lemma retarget_alt_Cons:
  "retarget_alt (face # others) =
     Inr (face\<lparr>categories :=
                 map (\<lambda>b. if boosted (categoryName b)
                           then b\<lparr>score := score b * (12 / 10)\<rparr> else b)
                   (categories face)\<rparr> # others,
          snd (retarget_alt_loop (categories face) []))"
  by (simp add: retarget_alt_def case_prod_beta fst_retarget_alt_loop)

section \<open>Retargeted weights\<close>

text \<open>
  Claim C1, as the code has it. Take an entry \<open>b\<close> of the first face's score list that is
  the last entry carrying its name (every entry is, when the names are pairwise distinct),
  with a raw score in \<open>[0,1]\<close>. The \<open>retarget\<close> of the first listing gives the name the
  weight \<open>min 1 (score \<times> gain)\<close>, which lies in \<open>[0,1]\<close>. The \<open>retarget\<close> of the second
  listing has no gain table and no clamp: it gives the name the score times 1.2 for the
  four listed names and the score itself otherwise, which lies in \<open>[0, 1.2]\<close>.
\<close>

theorem retarget_weight:
  assumes "categories face = pre @ b # post"
    and "categoryName b \<notin> categoryName ` set post"
    and "0 \<le> score b" and "score b \<le> 1"
  shows "(\<exists>after coefsMap.
            retarget (face # others) = Inr (after, coefsMap)
            \<and> Map_get coefsMap (categoryName b)
                = Some (min 1 (score b * select_gain (categoryName b)))
            \<and> 0 \<le> min 1 (score b * select_gain (categoryName b))
            \<and> min 1 (score b * select_gain (categoryName b)) \<le> 1)
       \<and> (\<exists>after coefsMap.
            retarget_alt (face # others) = Inr (after, coefsMap)
            \<and> Map_get coefsMap (categoryName b)
                = Some (score b * (if boosted (categoryName b) then 12 / 10 else 1))
            \<and> 0 \<le> score b * (if boosted (categoryName b) then 12 / 10 else 1)
            \<and> score b * (if boosted (categoryName b) then 12 / 10 else 1) \<le> 12 / 10)"
proof -
  have gain: "0 \<le> select_gain (categoryName b)"
    using select_gain_ge_1 [of "categoryName b"] by simp
  have first: "Map_get (snd (retarget_loop (categories face) [])) (categoryName b)
                 = Some (min 1 (score b * select_gain (categoryName b)))"
    using assms(1,2) by (simp add: retarget_loop_last)
  have second: "Map_get (snd (retarget_alt_loop (categories face) [])) (categoryName b)
                  = Some (score b * (if boosted (categoryName b) then 12 / 10 else 1))"
    using assms(1,2) by (simp add: retarget_alt_loop_last)
  have lower: "0 \<le> min 1 (score b * select_gain (categoryName b))"
    using assms(3) gain by simp
  have alt_bounds: "0 \<le> score b * (if boosted (categoryName b) then 12 / 10 else 1)
                  \<and> score b * (if boosted (categoryName b) then 12 / 10 else 1) \<le> 12 / 10"
    using assms(3,4) by simp
  show ?thesis
    using first second lower alt_bounds
    by (simp add: retarget_Cons retarget_alt_Cons)
qed

theorem retarget_weight_witness:
  "(\<exists>after coefsMap.
      retarget [\<lparr>categories = [\<lparr>categoryName = ''eyeBlinkLeft'', score = 9 / 10\<rparr>]\<rparr>]
        = Inr (after, coefsMap)
      \<and> Map_get coefsMap ''eyeBlinkLeft'' = Some 1)
   \<and> (\<exists>after coefsMap.
      retarget_alt [\<lparr>categories = [\<lparr>categoryName = ''eyeBlinkLeft'', score = 9 / 10\<rparr>]\<rparr>]
        = Inr (after, coefsMap)
      \<and> Map_get coefsMap ''eyeBlinkLeft'' = Some (27 / 25))"
  using retarget_weight
    [of "\<lparr>categories = [\<lparr>categoryName = ''eyeBlinkLeft'', score = 9 / 10\<rparr>]\<rparr>"
        "[]" "\<lparr>categoryName = ''eyeBlinkLeft'', score = 9 / 10\<rparr>" "[]" "[]"]
  by (simp add: select_gain_def BLENDSHAPE_GAIN_def boosted_def)

text \<open>
  Claim C1 as it is written fails. In the second listing the entry
  \<open>(eyeBlinkLeft, 0.9)\<close> gets the weight 1.08, which is above 1. In the first listing,
  when a name occurs twice, the earlier entry \<open>(jawOpen, 0.1)\<close> does not get
  \<open>min 1 (0.1 \<times> 2.2) = 0.22\<close>: the \<open>Map\<close> keeps the later entry's 0.44.
\<close>

theorem retarget_weight_counterexample:
  "retarget_alt [\<lparr>categories = [\<lparr>categoryName = ''eyeBlinkLeft'', score = 9 / 10\<rparr>]\<rparr>]
     = Inr ([\<lparr>categories = [\<lparr>categoryName = ''eyeBlinkLeft'', score = 27 / 25\<rparr>]\<rparr>],
            [(''eyeBlinkLeft'', 27 / 25)])
   \<and> \<not> (27 / 25 :: real) \<le> 1
   \<and> retarget [\<lparr>categories = [\<lparr>categoryName = ''jawOpen'', score = 1 / 10\<rparr>,
                                \<lparr>categoryName = ''jawOpen'', score = 2 / 10\<rparr>]\<rparr>]
     = Inr ([\<lparr>categories = [\<lparr>categoryName = ''jawOpen'', score = 1 / 10\<rparr>,
                              \<lparr>categoryName = ''jawOpen'', score = 2 / 10\<rparr>]\<rparr>],
            [(''jawOpen'', 11 / 25)])
   \<and> min 1 (1 / 10 * select_gain ''jawOpen'') \<noteq> 11 / 25"
  by (simp add: retarget_def retarget_alt_def Let_def boosted_def select_gain_def
      BLENDSHAPE_GAIN_def)

section \<open>Gain selection\<close>

text \<open>
  Claim C2, as the code has it. The gain of an entry is chosen by matching its name, with
  regard to case, against each category in the order mouth, jaw, tongue, eye, brow, in the
  spelling as written and in the spelling with a capital first letter; the first category
  that matches gives the gain, and a name that matches none gets the default 1.
\<close>

theorem retarget_gain_selection:
  assumes "categories face = pre @ b # post"
    and "categoryName b \<notin> categoryName ` set post"
  shows "select_gain (categoryName b) = gain_two_spellings (categoryName b)
       \<and> (\<exists>after coefsMap.
            retarget (face # others) = Inr (after, coefsMap)
            \<and> Map_get coefsMap (categoryName b)
                = Some (min 1 (score b * gain_two_spellings (categoryName b))))"
proof -
  have "Map_get (snd (retarget_loop (categories face) [])) (categoryName b)
          = Some (min 1 (score b * select_gain (categoryName b)))"
    using assms by (simp add: retarget_loop_last)
  then show ?thesis
    by (simp add: retarget_Cons select_gain_two_spellings)
qed

theorem retarget_gain_selection_witness:
  "select_gain ''leftEyeBrowUp'' = 12 / 10
   \<and> gain_two_spellings ''leftEyeBrowUp'' = 12 / 10
   \<and> (\<exists>after coefsMap.
        retarget [\<lparr>categories = [\<lparr>categoryName = ''leftEyeBrowUp'', score = 1 / 2\<rparr>]\<rparr>]
          = Inr (after, coefsMap)
        \<and> Map_get coefsMap ''leftEyeBrowUp'' = Some (6 / 10))"
proof -
  note selection = retarget_gain_selection
    [of "\<lparr>categories = [\<lparr>categoryName = ''leftEyeBrowUp'', score = 1 / 2\<rparr>]\<rparr>"
        "[]" "\<lparr>categoryName = ''leftEyeBrowUp'', score = 1 / 2\<rparr>" "[]" "[]"]
  have chain: "select_gain ''leftEyeBrowUp'' = 12 / 10"
    by (simp add: select_gain_def BLENDSHAPE_GAIN_def)
  have table: "gain_two_spellings ''leftEyeBrowUp'' = 12 / 10"
    using selection chain by simp
  have "\<exists>after coefsMap.
          retarget [\<lparr>categories = [\<lparr>categoryName = ''leftEyeBrowUp'', score = 1 / 2\<rparr>]\<rparr>]
            = Inr (after, coefsMap)
          \<and> Map_get coefsMap ''leftEyeBrowUp'' = Some (6 / 10)"
    using selection by (simp add: table)
  with chain table show ?thesis by simp
qed

text \<open>
  Claim C2 as it is written fails: the match is not case-insensitive. The name
  \<open>MOUTH\<close> contains the category mouth when case is ignored, so the claim gives it the
  gain 2.2 and the weight \<open>0.3 \<times> 2.2 = 0.66\<close>; the code gives it the default gain and the
  weight 0.3.
\<close>

theorem retarget_gain_selection_counterexample:
  "gain_case_insensitive ''MOUTH'' = 22 / 10
   \<and> select_gain ''MOUTH'' = 1
   \<and> retarget [\<lparr>categories = [\<lparr>categoryName = ''MOUTH'', score = 3 / 10\<rparr>]\<rparr>]
     = Inr ([\<lparr>categories = [\<lparr>categoryName = ''MOUTH'', score = 3 / 10\<rparr>]\<rparr>],
            [(''MOUTH'', 3 / 10)])
   \<and> min 1 (3 / 10 * gain_case_insensitive ''MOUTH'') = (33 / 50 :: real)"
  by (simp add: retarget_def Let_def select_gain_def BLENDSHAPE_GAIN_def
      gain_case_insensitive_def first_gain_def category_gains_def toLowerCase_def
      lower_char_def)

text \<open>
  Claim C3. On the single entry \<open>(mouthSmileLeft, 0.9)\<close> the weight is 1; on
  \<open>(eyeBlinkLeft, 0.5)\<close> it is 0.6; on \<open>(unknownCategory, 0.3)\<close> it is 0.3.
\<close>

theorem retarget_examples:
  "retarget [\<lparr>categories = [\<lparr>categoryName = ''mouthSmileLeft'', score = 9 / 10\<rparr>]\<rparr>]
     = Inr ([\<lparr>categories = [\<lparr>categoryName = ''mouthSmileLeft'', score = 9 / 10\<rparr>]\<rparr>],
            [(''mouthSmileLeft'', 1)])
   \<and> retarget [\<lparr>categories = [\<lparr>categoryName = ''eyeBlinkLeft'', score = 5 / 10\<rparr>]\<rparr>]
     = Inr ([\<lparr>categories = [\<lparr>categoryName = ''eyeBlinkLeft'', score = 5 / 10\<rparr>]\<rparr>],
            [(''eyeBlinkLeft'', 6 / 10)])
   \<and> retarget [\<lparr>categories = [\<lparr>categoryName = ''unknownCategory'', score = 3 / 10\<rparr>]\<rparr>]
     = Inr ([\<lparr>categories = [\<lparr>categoryName = ''unknownCategory'', score = 3 / 10\<rparr>]\<rparr>],
            [(''unknownCategory'', 3 / 10)])"
  by (simp add: retarget_def Let_def select_gain_def BLENDSHAPE_GAIN_def)

section \<open>Writing the weights into the meshes\<close>

text \<open>
  The inner loop, slot by slot: slot \<open>j\<close> ends with the weight of the last entry of the
  \<open>Map\<close> whose name the dictionary sends to \<open>j\<close>, and keeps its value when there is
  no such entry.
\<close>

lemma influences_loop_slot:
  "array_get (influences_loop dict w influences) j =
     (case filter (\<lambda>(name, value). dict name = Some j) w of
        [] \<Rightarrow> array_get influences j
      | hit # hits \<Rightarrow> Some (snd (last (hit # hits))))"
proof (induction w arbitrary: influences)
  case Nil
  show ?case by simp
next
  case (Cons entry w)
  obtain name "value" where entry: "entry = (name, value)"
    by (cases entry)
  show ?case
  proof (cases "dict name")
    case None
    then show ?thesis
      using Cons.IH [of influences] by (simp add: entry)
  next
    case (Some idx)
    then show ?thesis
      using Cons.IH [of "array_set influences idx value"]
      by (auto simp: entry array_get_array_set split: list.splits)
  qed
qed

text \<open>
  Claim C4. \<open>updateBlendshapes\<close> keeps the list of meshes, every dictionary and the
  \<open>gltf\<close> handle. A mesh that lacks the dictionary or the influence array is left as it
  is. In a mesh that has both, slot \<open>j\<close> is overwritten exactly when some name of the
  weight mapping is sent to \<open>j\<close> by the mesh's dictionary, and then holds the weight
  mapped to that name (of the last such name in iteration order, should several names
  share the slot); every other slot reads as before. A name that is not in the dictionary
  writes nothing, and there is no error result.
\<close>

theorem updateBlendshapes_slots:
  "length (morphTargetMeshes (updateBlendshapes this w)) = length (morphTargetMeshes this)
   \<and> gltf (updateBlendshapes this w) = gltf this
   \<and> (\<forall>k < length (morphTargetMeshes this).
        let mesh = morphTargetMeshes this ! k;
            mesh' = morphTargetMeshes (updateBlendshapes this w) ! k
        in morphTargetDictionary mesh' = morphTargetDictionary mesh
           \<and> (case morphTargetDictionary mesh of
                 None \<Rightarrow> mesh' = mesh
               | Some dict \<Rightarrow>
                   (case morphTargetInfluences mesh of
                      None \<Rightarrow> mesh' = mesh
                    | Some influences \<Rightarrow>
                        (\<exists>influences'.
                           morphTargetInfluences mesh' = Some influences'
                           \<and> (\<forall>j. array_get influences' j =
                                  (case filter (\<lambda>(name, value). dict name = Some j) w of
                                     [] \<Rightarrow> array_get influences j
                                   | hit # hits \<Rightarrow> Some (snd (last (hit # hits)))))))))"
proof -
  have each: "morphTargetDictionary (update_mesh w mesh) = morphTargetDictionary mesh
      \<and> (case morphTargetDictionary mesh of
            None \<Rightarrow> update_mesh w mesh = mesh
          | Some dict \<Rightarrow>
              (case morphTargetInfluences mesh of
                 None \<Rightarrow> update_mesh w mesh = mesh
               | Some influences \<Rightarrow>
                   (\<exists>influences'.
                      morphTargetInfluences (update_mesh w mesh) = Some influences'
                      \<and> (\<forall>j. array_get influences' j =
                             (case filter (\<lambda>(name, value). dict name = Some j) w of
                                [] \<Rightarrow> array_get influences j
                              | hit # hits \<Rightarrow> Some (snd (last (hit # hits))))))))"
    for mesh
    by (simp add: update_mesh_def influences_loop_slot split: option.splits)
  show ?thesis
    using each by (simp add: updateBlendshapes_def Let_def)
qed

text \<open>
  The example of the specification: the mesh knows only \<open>jawOpen\<close>; of the weights
  \<open>jawOpen = 0.7\<close> and \<open>eyeBlinkLeft = 0.4\<close> only the first is written.
\<close>

theorem updateBlendshapes_slots_witness:
  "(let this = \<lparr>gltf = None,
                 morphTargetMeshes =
                   [\<lparr>morphTargetDictionary = Some [''jawOpen'' \<mapsto> 1],
                     morphTargetInfluences = Some [Some 0, Some 0, Some (1 / 2)]\<rparr>]\<rparr>;
        w = [(''jawOpen'', 7 / 10), (''eyeBlinkLeft'', 4 / 10)];
        mesh' = morphTargetMeshes (updateBlendshapes this w) ! 0
    in (0::nat) < length (morphTargetMeshes this)
       \<and> (\<exists>influences'. morphTargetInfluences mesh' = Some influences'
             \<and> array_get influences' 0 = Some 0
             \<and> array_get influences' 1 = Some (7 / 10)
             \<and> array_get influences' 2 = Some (1 / 2)))"
proof -
  let ?avatar = "\<lparr>gltf = None,
                 morphTargetMeshes =
                   [\<lparr>morphTargetDictionary = Some [''jawOpen'' \<mapsto> 1],
                     morphTargetInfluences = Some [Some 0, Some 0, Some (1 / 2)]\<rparr>]\<rparr>"
  let ?w = "[(''jawOpen'', 7 / 10 :: real), (''eyeBlinkLeft'', 4 / 10)]"
  have "\<forall>k < length (morphTargetMeshes ?avatar).
        let mesh = morphTargetMeshes ?avatar ! k;
            mesh' = morphTargetMeshes (updateBlendshapes ?avatar ?w) ! k
        in morphTargetDictionary mesh' = morphTargetDictionary mesh
           \<and> (case morphTargetDictionary mesh of
                 None \<Rightarrow> mesh' = mesh
               | Some dict \<Rightarrow>
                   (case morphTargetInfluences mesh of
                      None \<Rightarrow> mesh' = mesh
                    | Some influences \<Rightarrow>
                        (\<exists>influences'.
                           morphTargetInfluences mesh' = Some influences'
                           \<and> (\<forall>j. array_get influences' j =
                                  (case filter (\<lambda>(name, value). dict name = Some j) ?w of
                                     [] \<Rightarrow> array_get influences j
                                   | hit # hits \<Rightarrow> Some (snd (last (hit # hits))))))))"
    using updateBlendshapes_slots [of ?avatar ?w] by blast
  then obtain influences' where
    some: "morphTargetInfluences (morphTargetMeshes (updateBlendshapes ?avatar ?w) ! 0)
             = Some influences'"
    and slots: "\<And>j. array_get influences' j =
                  (case filter (\<lambda>(name, value). [''jawOpen'' \<mapsto> (1::nat)] name = Some j) ?w of
                     [] \<Rightarrow> array_get [Some 0, Some 0, Some (1 / 2)] j
                   | hit # hits \<Rightarrow> Some (snd (last (hit # hits))))"
    by (auto simp: Let_def)
  have "array_get influences' 0 = Some 0" "array_get influences' 1 = Some (7 / 10)"
    "array_get influences' 2 = Some (1 / 2)"
  proof -
    have old: "array_get [Some 0, Some 0, Some (1 / 2)] 0 = Some 0"
      "array_get [Some 0, Some 0, Some (1 / 2)] 2 = Some (1 / 2)"
      by (simp_all add: array_get_def)
    show "array_get influences' 0 = Some 0" "array_get influences' 1 = Some (7 / 10)"
      "array_get influences' 2 = Some (1 / 2)"
      by (simp_all add: slots old)
  qed
  with some show ?thesis by (simp add: Let_def)
qed

section \<open>Applying the head pose\<close>

lemma length_Matrix4_scale: "length (Matrix4_scale te x y z) = length te"
  by (simp add: Matrix4_scale_def)

lemma nth_Matrix4_scale:
  "i < length te \<Longrightarrow>
   Matrix4_scale te x y z ! i =
     (if i < 4 then te ! i * x else if i < 8 then te ! i * y
      else if i < 12 then te ! i * z else te ! i)"
  by (simp add: Matrix4_scale_def nth_enumerate_eq)

text \<open>
  Claim C5. While no asset is loaded (\<open>gltf\<close> is absent), \<open>applyMatrix\<close> returns at
  once: the caller's matrix and the avatar are as before, whatever the matrix and the
  options, and there is no error result.
\<close>

theorem applyMatrix_before_load:
  "gltf this = None \<Longrightarrow> applyMatrix this m options = (m, this)"
  by (simp add: applyMatrix_def)

theorem applyMatrix_before_load_witness:
  "applyMatrix \<lparr>gltf = None, morphTargetMeshes = []\<rparr>
     [1, 0, 0, 0, 0, 1, 0, 0, 0, 0, 1, 0, 0, 0, 0, 1] (Some \<lparr>scale = Some 40\<rparr>)
   = ([1, 0, 0, 0, 0, 1, 0, 0, 0, 0, 1, 0, 0, 0, 0, 1],
      \<lparr>gltf = None, morphTargetMeshes = []\<rparr>)"
  using applyMatrix_before_load
    [of "\<lparr>gltf = None, morphTargetMeshes = []\<rparr>"
        "[1, 0, 0, 0, 0, 1, 0, 0, 0, 0, 1, 0, 0, 0, 0, 1]" "Some \<lparr>scale = Some 40\<rparr>"]
  by simp

text \<open>
  Claim C6, as the code has it. On a loaded avatar \<open>applyMatrix\<close> switches
  \<open>matrixAutoUpdate\<close> of the scene off and overwrites the scene's matrix with the pose
  scaled by the scale factor: the twelve elements of the three axis columns multiplied by
  it, the translation column kept. The meshes are not touched. When no scale is supplied
  the factor is 1.
\<close>

theorem applyMatrix_loaded:
  assumes "gltf this = Some g"
  shows "\<exists>g'. gltf (snd (applyMatrix this m options)) = Some g'
          \<and> \<not> matrixAutoUpdate (scene g')
          \<and> matrix (scene g') =
              Matrix4_scale m (destructure_scale options) (destructure_scale options)
                (destructure_scale options)
          \<and> length (matrix (scene g')) = length m
          \<and> (\<forall>i < length m.
                matrix (scene g') ! i =
                  (if i < 12 then m ! i * destructure_scale options else m ! i))
          \<and> morphTargetMeshes (snd (applyMatrix this m options)) = morphTargetMeshes this
          \<and> destructure_scale None = 1
          \<and> destructure_scale (Some \<lparr>scale = None\<rparr>) = 1
          \<and> (\<forall>s. destructure_scale (Some \<lparr>scale = Some s\<rparr>) = s)"
  using assms
  by (simp add: applyMatrix_def destructure_scale_def Let_def length_Matrix4_scale
      nth_Matrix4_scale)

theorem applyMatrix_loaded_witness:
  "\<exists>g'. gltf (snd (applyMatrix
            \<lparr>gltf = Some \<lparr>scene = \<lparr>matrixAutoUpdate = True, matrix = []\<rparr>\<rparr>,
              morphTargetMeshes = []\<rparr>
            [1, 0, 0, 0, 0, 1, 0, 0, 0, 0, 1, 0, 2, 3, 4, 1]
            (Some \<lparr>scale = Some 40\<rparr>))) = Some g'
        \<and> \<not> matrixAutoUpdate (scene g')
        \<and> matrix (scene g') = [40, 0, 0, 0, 0, 40, 0, 0, 0, 0, 40, 0, 2, 3, 4, 1]"
proof -
  let ?m = "[1, 0, 0, 0, 0, 1, 0, 0, 0, 0, 1, 0, 2, 3, 4, 1] :: real list"
  let ?scene = "\<lparr>scene = \<lparr>matrixAutoUpdate = True, matrix = []\<rparr>\<rparr>"
  let ?avatar = "\<lparr>gltf = Some ?scene, morphTargetMeshes = []\<rparr>"
  have scaled: "Matrix4_scale ?m 40 40 40 = [40, 0, 0, 0, 0, 40, 0, 0, 0, 0, 40, 0, 2, 3, 4, 1]"
    by (simp add: Matrix4_scale_def)
  have scale: "destructure_scale (Some \<lparr>scale = Some 40\<rparr>) = 40"
    by (simp add: destructure_scale_def)
  have loaded: "gltf ?avatar = Some ?scene"
    by simp
  from applyMatrix_loaded [OF loaded, of ?m "Some \<lparr>scale = Some 40\<rparr>"]
  obtain g' where
    "gltf (snd (applyMatrix ?avatar ?m (Some \<lparr>scale = Some 40\<rparr>))) = Some g'"
    "\<not> matrixAutoUpdate (scene g')"
    "matrix (scene g') = Matrix4_scale ?m 40 40 40"
    unfolding scale by blast
  then show ?thesis
    unfolding scaled by blast
qed

text \<open>
  Claim C6 as it is written fails in its last part: without a scale \<open>Avatar.applyMatrix\<close>
  scales by 1, not by 40. The pose below is stored as it is, and scaling it by 40 would
  have given another matrix.
\<close>

theorem applyMatrix_default_scale_counterexample:
  "applyMatrix
     \<lparr>gltf = Some \<lparr>scene = \<lparr>matrixAutoUpdate = True, matrix = []\<rparr>\<rparr>,
       morphTargetMeshes = []\<rparr>
     [1, 0, 0, 0, 0, 1, 0, 0, 0, 0, 1, 0, 2, 3, 4, 1] None
   = ([1, 0, 0, 0, 0, 1, 0, 0, 0, 0, 1, 0, 2, 3, 4, 1],
      \<lparr>gltf = Some \<lparr>scene = \<lparr>matrixAutoUpdate = False,
                              matrix = [1, 0, 0, 0, 0, 1, 0, 0, 0, 0, 1, 0, 2, 3, 4, 1]\<rparr>\<rparr>,
        morphTargetMeshes = []\<rparr>)
   \<and> Matrix4_scale [1, 0, 0, 0, 0, 1, 0, 0, 0, 0, 1, 0, 2, 3, 4, 1] 40 40 40
       = [40, 0, 0, 0, 0, 40, 0, 0, 0, 0, 40, 0, 2, 3, 4, 1]
   \<and> destructure_scale None = 1"
  by (simp add: applyMatrix_def destructure_scale_def Matrix4_scale_def Let_def)

section \<open>What the calls do to their arguments\<close>

text \<open>
  Claim C7, as the code has it. The \<open>retarget\<close> of the first listing leaves the
  detector's list as it was. The \<open>retarget\<close> of the second listing writes into it: the
  score of every entry of the first face that carries one of the four listed names is
  multiplied by 1.2 in place; the names, the other entries and the other faces stay. On
  an empty list both throw before anything is written.
\<close>

theorem retarget_effect_on_input:
  "(\<exists>coefsMap. retarget (face # others) = Inr (face # others, coefsMap))
   \<and> (\<exists>coefsMap.
        retarget_alt (face # others) =
          Inr (face\<lparr>categories :=
                      map (\<lambda>b. if boosted (categoryName b)
                                then b\<lparr>score := score b * (12 / 10)\<rparr> else b)
                        (categories face)\<rparr> # others,
               coefsMap))
   \<and> retarget [] = Inl TypeError
   \<and> retarget_alt [] = Inl TypeError"
  by (simp add: retarget_Cons retarget_alt_Cons) (simp add: retarget_def retarget_alt_def)

text \<open>
  Claim C7 as it is written fails for the second listing: after the call the entry
  \<open>(eyeBlinkLeft, 0.5)\<close> of the caller's list holds the score 0.6.
\<close>

theorem retarget_effect_on_input_counterexample:
  "retarget_alt [\<lparr>categories = [\<lparr>categoryName = ''eyeBlinkLeft'', score = 5 / 10\<rparr>]\<rparr>]
     = Inr ([\<lparr>categories = [\<lparr>categoryName = ''eyeBlinkLeft'', score = 6 / 10\<rparr>]\<rparr>],
            [(''eyeBlinkLeft'', 6 / 10)])
   \<and> [\<lparr>categories = [\<lparr>categoryName = ''eyeBlinkLeft'', score = 6 / 10 :: real\<rparr>]\<rparr>]
       \<noteq> [\<lparr>categories = [\<lparr>categoryName = ''eyeBlinkLeft'', score = 5 / 10\<rparr>]\<rparr>]"
  by (simp add: retarget_alt_def Let_def boosted_def)

text \<open>
  Claim C10, as the code has it. On a loaded avatar \<open>Avatar.applyMatrix\<close> scales the
  caller's matrix in place before copying it: afterwards the caller holds the matrix it
  supplied with each of the twelve elements of the axis columns multiplied by the scale
  and the translation column as it was. While no asset is loaded the caller's matrix is
  left as it is. \<open>FaceOverlay.applyMatrix\<close> scales a clone and leaves the caller's
  matrix as it is in every case.
\<close>

theorem applyMatrix_argument:
  "(gltf this = Some g \<longrightarrow>
      fst (applyMatrix this m options) =
        Matrix4_scale m (destructure_scale options) (destructure_scale options)
          (destructure_scale options)
      \<and> length (fst (applyMatrix this m options)) = length m
      \<and> (\<forall>i < length m.
            fst (applyMatrix this m options) ! i =
              (if i < 12 then m ! i * destructure_scale options else m ! i)))
   \<and> (gltf this = None \<longrightarrow> fst (applyMatrix this m options) = m)
   \<and> fst (overlay_applyMatrix overlay m options) = m"
proof -
  have overlay: "fst (overlay_applyMatrix overlay m options) = m"
    by (simp add: overlay_applyMatrix_def Let_def split: option.splits)
  have loaded: "fst (applyMatrix this m options) =
                  Matrix4_scale m (destructure_scale options) (destructure_scale options)
                    (destructure_scale options)"
    if "gltf this = Some g"
    using that by (simp add: applyMatrix_def Let_def)
  have unloaded: "fst (applyMatrix this m options) = m" if "gltf this = None"
    using that by (simp add: applyMatrix_def)
  show ?thesis
    using overlay loaded unloaded
    by (simp add: length_Matrix4_scale nth_Matrix4_scale)
qed

theorem applyMatrix_argument_witness:
  "fst (applyMatrix
          \<lparr>gltf = Some \<lparr>scene = \<lparr>matrixAutoUpdate = True, matrix = []\<rparr>\<rparr>,
            morphTargetMeshes = []\<rparr>
          [1, 0, 0, 0, 0, 1, 0, 0, 0, 0, 1, 0, 2, 3, 4, 1] (Some \<lparr>scale = Some 40\<rparr>))
     = [40, 0, 0, 0, 0, 40, 0, 0, 0, 0, 40, 0, 2, 3, 4, 1]
   \<and> fst (applyMatrix \<lparr>gltf = None, morphTargetMeshes = []\<rparr>
          [1, 0, 0, 0, 0, 1, 0, 0, 0, 0, 1, 0, 2, 3, 4, 1] (Some \<lparr>scale = Some 40\<rparr>))
     = [1, 0, 0, 0, 0, 1, 0, 0, 0, 0, 1, 0, 2, 3, 4, 1]
   \<and> fst (overlay_applyMatrix
          \<lparr>overlay_mesh = Some \<lparr>matrixAutoUpdate = True, matrix = []\<rparr>, overlay_scale = 40\<rparr>
          [1, 0, 0, 0, 0, 1, 0, 0, 0, 0, 1, 0, 2, 3, 4, 1] (Some \<lparr>scale = Some 40\<rparr>))
     = [1, 0, 0, 0, 0, 1, 0, 0, 0, 0, 1, 0, 2, 3, 4, 1]"
proof -
  let ?m = "[1, 0, 0, 0, 0, 1, 0, 0, 0, 0, 1, 0, 2, 3, 4, 1] :: real list"
  let ?scene = "\<lparr>scene = \<lparr>matrixAutoUpdate = True, matrix = []\<rparr>\<rparr>"
  let ?overlay = "\<lparr>overlay_mesh = Some \<lparr>matrixAutoUpdate = True, matrix = []\<rparr>,
                   overlay_scale = 40\<rparr>"
  have scale: "destructure_scale (Some \<lparr>scale = Some 40\<rparr>) = 40"
    by (simp add: destructure_scale_def)
  have scaled: "Matrix4_scale ?m 40 40 40 = [40, 0, 0, 0, 0, 40, 0, 0, 0, 0, 40, 0, 2, 3, 4, 1]"
    by (simp add: Matrix4_scale_def)
  have first: "fst (applyMatrix \<lparr>gltf = Some ?scene, morphTargetMeshes = []\<rparr> ?m
                      (Some \<lparr>scale = Some 40\<rparr>)) = Matrix4_scale ?m 40 40 40"
    and third: "fst (overlay_applyMatrix ?overlay ?m (Some \<lparr>scale = Some 40\<rparr>)) = ?m"
    using applyMatrix_argument
            [of "\<lparr>gltf = Some ?scene, morphTargetMeshes = []\<rparr>" ?scene ?m
                "Some \<lparr>scale = Some 40\<rparr>" ?overlay]
    unfolding scale by simp_all
  have second: "fst (applyMatrix \<lparr>gltf = None, morphTargetMeshes = []\<rparr> ?m
                       (Some \<lparr>scale = Some 40\<rparr>)) = ?m"
    using applyMatrix_argument
            [of "\<lparr>gltf = None, morphTargetMeshes = []\<rparr>" ?scene ?m
                "Some \<lparr>scale = Some 40\<rparr>" ?overlay]
    by simp
  from first second third show ?thesis
    unfolding scaled by simp
qed

text \<open>
  Claim C10 as it is written fails: a scale other than 1 does not always change the
  caller's matrix. Before the asset has loaded the call returns before scaling; and on a
  loaded avatar a matrix whose axis columns are all 0 is the same after scaling by 40.
\<close>

theorem applyMatrix_argument_counterexample:
  "fst (applyMatrix \<lparr>gltf = None, morphTargetMeshes = []\<rparr>
          [1, 0, 0, 0, 0, 1, 0, 0, 0, 0, 1, 0, 2, 3, 4, 1] (Some \<lparr>scale = Some 40\<rparr>))
     = [1, 0, 0, 0, 0, 1, 0, 0, 0, 0, 1, 0, 2, 3, 4, 1]
   \<and> fst (applyMatrix
          \<lparr>gltf = Some \<lparr>scene = \<lparr>matrixAutoUpdate = True, matrix = []\<rparr>\<rparr>,
            morphTargetMeshes = []\<rparr>
          [0, 0, 0, 0, 0, 0, 0, 0, 0, 0, 0, 0, 2, 3, 4, 1] (Some \<lparr>scale = Some 40\<rparr>))
     = [0, 0, 0, 0, 0, 0, 0, 0, 0, 0, 0, 0, 2, 3, 4, 1]
   \<and> destructure_scale (Some \<lparr>scale = Some 40\<rparr>) \<noteq> 1"
  by (simp add: applyMatrix_def destructure_scale_def Matrix4_scale_def Let_def)

section \<open>The per-frame path\<close>

lemma update_mesh_no_weights: "update_mesh [] mesh = mesh"
  by (simp add: update_mesh_def split: option.splits)

lemma updateBlendshapes_no_weights: "updateBlendshapes this [] = this"
proof -
  have "map (update_mesh []) (morphTargetMeshes this) = morphTargetMeshes this"
    by (rule map_idI) (rule update_mesh_no_weights)
  then show ?thesis by (simp add: updateBlendshapes_def)
qed

lemma applyMatrix_meshes:
  "morphTargetMeshes (snd (applyMatrix this m options)) = morphTargetMeshes this"
  by (simp add: applyMatrix_def Let_def split: option.splits)

lemma overlay_step_avatar:
  "avatar (snd (case faceOverlay g of
                  None \<Rightarrow> (m, g)
                | Some overlay \<Rightarrow>
                    (let (m', overlay') = overlay_applyMatrix overlay m options
                     in (m', g\<lparr>faceOverlay := Some overlay'\<rparr>)))) = avatar g"
  by (simp add: case_prod_beta split: option.splits)

text \<open>
  Claim C8. When the detector's result for the frame has no score list (the blendshape
  list is missing or empty) or the first face's score list is empty, the frame ends
  without an error and every mesh of the avatar has the influence values it had before;
  and \<open>retarget\<close>, where it is called at all, returns an empty \<open>Map\<close>.
\<close>

theorem detectFaceLandmarks_without_scores:
  assumes "faceLandmarker g = Some detector" and "video g = Some v"
    and "faceBlendshapes (detector v time) = None
         \<or> faceBlendshapes (detector v time) = Some []
         \<or> (\<exists>face others. faceBlendshapes (detector v time) = Some (face # others)
                            \<and> categories face = [])"
  shows "(\<exists>g'. detectFaceLandmarks g time = Inr g'
            \<and> map_option morphTargetMeshes (avatar g')
                = map_option morphTargetMeshes (avatar g))
       \<and> (\<forall>face others.
            faceBlendshapes (detector v time) = Some (face # others) \<longrightarrow>
            retarget (face # others) = Inr (face # others, []))"
proof -
  have empty_map: "retarget (face # others) = Inr (face # others, [])"
    if "faceBlendshapes (detector v time) = Some (face # others)" for face others
  proof -
    from assms(3) that have "categories face = []" by auto
    then show ?thesis by (simp add: retarget_Cons)
  qed
  have frame: "\<exists>g'. detectFaceLandmarks g time = Inr g'
            \<and> map_option morphTargetMeshes (avatar g')
                = map_option morphTargetMeshes (avatar g)"
  proof (cases "facialTransformationMatrixes (detector v time)")
    case None
    then show ?thesis
      using assms(1,2) by (simp add: detectFaceLandmarks_def)
  next
    case (Some matrices)
    show ?thesis
    proof (cases matrices)
      case Nil
      then show ?thesis
        using assms(1,2) Some by (simp add: detectFaceLandmarks_def)
    next
      case (Cons first rest)
      let ?step = "case faceOverlay g of
                     None \<Rightarrow> (Matrix4_fromArray (data first), g)
                   | Some overlay \<Rightarrow>
                       (let (m', overlay') =
                              overlay_applyMatrix overlay (Matrix4_fromArray (data first))
                                (Some \<lparr>scale = Some 40\<rparr>)
                        in (m', g\<lparr>faceOverlay := Some overlay'\<rparr>))"
      have same_avatar: "avatar (snd ?step) = avatar g"
        by (rule overlay_step_avatar)
      show ?thesis
      proof (cases "avatar g")
        case None
        then show ?thesis
          using assms(1,2) Some Cons same_avatar
          by (simp add: detectFaceLandmarks_def Let_def case_prod_beta)
      next
        case (Some a)
        from assms(3) show ?thesis
        proof (elim disjE exE conjE)
          assume "faceBlendshapes (detector v time) = None"
          then show ?thesis
            using assms(1,2) \<open>facialTransformationMatrixes (detector v time) = Some matrices\<close>
              Cons Some same_avatar
            by (simp add: detectFaceLandmarks_def Let_def case_prod_beta applyMatrix_meshes)
        next
          assume "faceBlendshapes (detector v time) = Some []"
          then show ?thesis
            using assms(1,2) \<open>facialTransformationMatrixes (detector v time) = Some matrices\<close>
              Cons Some same_avatar
            by (simp add: detectFaceLandmarks_def Let_def case_prod_beta applyMatrix_meshes)
        next
          fix face others
          assume "faceBlendshapes (detector v time) = Some (face # others)"
            and "categories face = []"
          then show ?thesis
            using assms(1,2) \<open>facialTransformationMatrixes (detector v time) = Some matrices\<close>
              Cons Some same_avatar
            by (simp add: detectFaceLandmarks_def Let_def case_prod_beta applyMatrix_meshes
                retarget_Cons updateBlendshapes_no_weights)
        qed
      qed
    qed
  qed
  from frame empty_map show ?thesis by blast
qed

theorem detectFaceLandmarks_without_scores_witness:
  "\<exists>g'. detectFaceLandmarks
           \<lparr>faceLandmarker =
              Some (\<lambda>v time.
                \<lparr>facialTransformationMatrixes =
                   Some [\<lparr>data = [1, 0, 0, 0, 0, 1, 0, 0, 0, 0, 1, 0, 2, 3, 4, 1]\<rparr>],
                 faceBlendshapes = Some []\<rparr>),
            video = Some 0,
            avatar =
              Some \<lparr>gltf = Some \<lparr>scene = \<lparr>matrixAutoUpdate = True, matrix = []\<rparr>\<rparr>,
                    morphTargetMeshes =
                      [\<lparr>morphTargetDictionary = Some [''jawOpen'' \<mapsto> 0],
                        morphTargetInfluences = Some [Some (1 / 4)]\<rparr>]\<rparr>,
            faceOverlay = None\<rparr> 0 = Inr g'
        \<and> map_option morphTargetMeshes (avatar g')
            = Some [\<lparr>morphTargetDictionary = Some [''jawOpen'' \<mapsto> 0],
                     morphTargetInfluences = Some [Some (1 / 4)]\<rparr>]"
  using detectFaceLandmarks_without_scores
    [of "\<lparr>faceLandmarker =
              Some (\<lambda>v time.
                \<lparr>facialTransformationMatrixes =
                   Some [\<lparr>data = [1, 0, 0, 0, 0, 1, 0, 0, 0, 0, 1, 0, 2, 3, 4, 1]\<rparr>],
                 faceBlendshapes = Some []\<rparr>),
            video = Some 0,
            avatar =
              Some \<lparr>gltf = Some \<lparr>scene = \<lparr>matrixAutoUpdate = True, matrix = []\<rparr>\<rparr>,
                    morphTargetMeshes =
                      [\<lparr>morphTargetDictionary = Some [''jawOpen'' \<mapsto> 0],
                        morphTargetInfluences = Some [Some (1 / 4)]\<rparr>]\<rparr>,
            faceOverlay = None\<rparr>"
        "\<lambda>v time.
                \<lparr>facialTransformationMatrixes =
                   Some [\<lparr>data = [1, 0, 0, 0, 0, 1, 0, 0, 0, 0, 1, 0, 2, 3, 4, 1]\<rparr>],
                 faceBlendshapes = Some []\<rparr>"
        0 0]
  by simp

text \<open>
  Claim C9. In the first listing the weights are applied inside the branch that handles
  the head pose: when the detector returns no transformation matrix (the list is missing
  or empty) the frame changes nothing at all, whatever blendshapes it returned, so no
  influence is updated.
\<close>

theorem detectFaceLandmarks_without_pose:
  assumes "faceLandmarker g = Some detector" and "video g = Some v"
    and "facialTransformationMatrixes (detector v time) = None
         \<or> facialTransformationMatrixes (detector v time) = Some []"
  shows "detectFaceLandmarks g time = Inr g"
  using assms by (auto simp: detectFaceLandmarks_def)

theorem detectFaceLandmarks_without_pose_witness:
  "detectFaceLandmarks
     \<lparr>faceLandmarker =
        Some (\<lambda>v time.
          \<lparr>facialTransformationMatrixes = Some [],
           faceBlendshapes =
             Some [\<lparr>categories = [\<lparr>categoryName = ''jawOpen'', score = 1 / 2\<rparr>]\<rparr>]\<rparr>),
      video = Some 0,
      avatar =
        Some \<lparr>gltf = Some \<lparr>scene = \<lparr>matrixAutoUpdate = True, matrix = []\<rparr>\<rparr>,
              morphTargetMeshes =
                [\<lparr>morphTargetDictionary = Some [''jawOpen'' \<mapsto> 0],
                  morphTargetInfluences = Some [Some (1 / 4)]\<rparr>]\<rparr>,
      faceOverlay = None\<rparr> 0
   = Inr \<lparr>faceLandmarker =
        Some (\<lambda>v time.
          \<lparr>facialTransformationMatrixes = Some [],
           faceBlendshapes =
             Some [\<lparr>categories = [\<lparr>categoryName = ''jawOpen'', score = 1 / 2\<rparr>]\<rparr>]\<rparr>),
      video = Some 0,
      avatar =
        Some \<lparr>gltf = Some \<lparr>scene = \<lparr>matrixAutoUpdate = True, matrix = []\<rparr>\<rparr>,
              morphTargetMeshes =
                [\<lparr>morphTargetDictionary = Some [''jawOpen'' \<mapsto> 0],
                  morphTargetInfluences = Some [Some (1 / 4)]\<rparr>]\<rparr>,
      faceOverlay = None\<rparr>"
  using detectFaceLandmarks_without_pose
    [of "\<lparr>faceLandmarker =
        Some (\<lambda>v time.
          \<lparr>facialTransformationMatrixes = Some [],
           faceBlendshapes =
             Some [\<lparr>categories = [\<lparr>categoryName = ''jawOpen'', score = 1 / 2\<rparr>]\<rparr>]\<rparr>),
      video = Some 0,
      avatar =
        Some \<lparr>gltf = Some \<lparr>scene = \<lparr>matrixAutoUpdate = True, matrix = []\<rparr>\<rparr>,
              morphTargetMeshes =
                [\<lparr>morphTargetDictionary = Some [''jawOpen'' \<mapsto> 0],
                  morphTargetInfluences = Some [Some (1 / 4)]\<rparr>]\<rparr>,
      faceOverlay = None\<rparr>"
      "\<lambda>v time.
          \<lparr>facialTransformationMatrixes = Some [],
           faceBlendshapes =
             Some [\<lparr>categories = [\<lparr>categoryName = ''jawOpen'', score = 1 / 2\<rparr>]\<rparr>]\<rparr>"
      0 0]
  by simp

text \<open>
  For contrast: with a pose and a score in the same frame the weight is written, so the
  two theorems above are not about a path that never writes.
\<close>

lemma detectFaceLandmarks_with_pose_and_scores:
  "map_sum id (map_option morphTargetMeshes \<circ> avatar)
     (detectFaceLandmarks
        \<lparr>faceLandmarker =
           Some (\<lambda>v time.
             \<lparr>facialTransformationMatrixes =
                Some [\<lparr>data = [1, 0, 0, 0, 0, 1, 0, 0, 0, 0, 1, 0, 2, 3, 4, 1]\<rparr>],
              faceBlendshapes =
                Some [\<lparr>categories = [\<lparr>categoryName = ''jawOpen'', score = 1 / 4\<rparr>]\<rparr>]\<rparr>),
         video = Some 0,
         avatar =
           Some \<lparr>gltf = Some \<lparr>scene = \<lparr>matrixAutoUpdate = True, matrix = []\<rparr>\<rparr>,
                 morphTargetMeshes =
                   [\<lparr>morphTargetDictionary = Some [''jawOpen'' \<mapsto> 0],
                     morphTargetInfluences = Some [Some 0]\<rparr>]\<rparr>,
         faceOverlay = None\<rparr> 0)
   = Inr (Some [\<lparr>morphTargetDictionary = Some [''jawOpen'' \<mapsto> 0],
                  morphTargetInfluences = Some [Some (55 / 100)]\<rparr>])"
  by (simp add: detectFaceLandmarks_def Let_def applyMatrix_def destructure_scale_def
      retarget_def select_gain_def BLENDSHAPE_GAIN_def updateBlendshapes_def update_mesh_def
      array_set_def)

end
